theory Spec2Isabelle
  imports Main
begin

section \<open>Housework task form: data model\<close>

text \<open>
  The program is one Flask view (\<open>add_task_record\<close>) with a CSV loader
  (\<open>process_csv\<close>) and three wrappers around stored procedures. Everything it does
  beyond computing is made explicit here: the flashed messages and the calls on the
  database session are recorded in a state that every function takes and returns, and
  a Python exception is a result value.
\<close>

subsection \<open>Python values\<close>

text \<open>
  A cell of the parsed CSV and a column value of a \<open>TaskRecord\<close> is a dynamically
  typed Python value. \<open>PyOther\<close> stands for any value that is neither \<open>None\<close>, an
  integer nor a \<open>str\<close> (a float such as pandas' NaN, a date), carried by its
  \<open>str()\<close> text.
\<close>

datatype pyval = PyNone | PyInt int | PyStr string | PyOther string

function str_nat :: "nat \<Rightarrow> string" where
  "str_nat n = (if n < 10 then [''0123456789'' ! n]
                else str_nat (n div 10) @ [''0123456789'' ! (n mod 10)])"
  by pat_completeness auto
termination
  by (relation "measure (\<lambda>n. n)") auto

declare str_nat.simps [simp del]

definition str_int :: "int \<Rightarrow> string" where
  "str_int i = (if i < 0 then ''-'' @ str_nat (nat (- i)) else str_nat (nat i))"

text \<open>\<open>py_str v\<close> is what an f-string prints for \<open>v\<close>.\<close>

fun py_str :: "pyval \<Rightarrow> string" where
  "py_str PyNone = ''None''"
| "py_str (PyInt i) = str_int i"
| "py_str (PyStr s) = s"
| "py_str (PyOther s) = s"

fun opt_val :: "int option \<Rightarrow> pyval" where
  "opt_val None = PyNone"
| "opt_val (Some i) = PyInt i"

text \<open>
  \<open>not x\<close> for a value that is \<open>None\<close> or an integer: true for \<open>None\<close> and
  for \<open>0\<close>.
\<close>

fun py_not :: "int option \<Rightarrow> bool" where
  "py_not None = True"
| "py_not (Some i) = (i = 0)"

subsection \<open>Exceptions and results\<close>

datatype exn =
    SQLAlchemyError string
  | KeyError string
  | TypeError string
  | OtherException string

text \<open>\<open>str(e)\<close>; a \<open>KeyError\<close> prints the repr of the missing key.\<close>

fun exn_str :: "exn \<Rightarrow> string" where
  "exn_str (SQLAlchemyError m) = m"
| "exn_str (KeyError k) = [CHR 0x27] @ k @ [CHR 0x27]"
| "exn_str (TypeError m) = m"
| "exn_str (OtherException m) = m"

datatype 'a result = Returned 'a | Raised exn

subsection \<open>Models (lines 141-165)\<close>

record Person =
  Person_id :: int
  Person_name :: string

record Task =
  Task_id :: int
  Task_name :: string

record TaskRecord =
  date :: pyval
  person_id :: pyval
  task_id :: pyval
  task_duration_minutes :: pyval

subsection \<open>The database session and the flashed messages\<close>

datatype category = Success | Warning | Danger

datatype db_op =
    QueryPersons
  | QueryTasks
  | Execute string
  | BulkSaveObjects "TaskRecord list"
  | Add TaskRecord
  | Commit
  | Rollback

text \<open>
  The log holds every call made on the session in order, each with the message of the
  \<open>SQLAlchemyError\<close> it raised, if it raised one.
\<close>

type_synonym db_event = "db_op \<times> string option"

record state =
  flashes :: "(string \<times> category) list"
  db_log :: "db_event list"

text \<open>
  The database is outside the program. \<open>db_error env log op\<close> says whether the call
  \<open>op\<close>, made after the calls \<open>log\<close>, raises \<open>SQLAlchemyError\<close>, and with which
  message; the two reference tables are what \<open>Person.query.all()\<close> and
  \<open>Task.query.all()\<close> return. \<open>db.session.rollback()\<close> and \<open>flash\<close> are taken not to
  raise.
\<close>

record env =
  persons_tbl :: "Person list"
  tasks_tbl :: "Task list"
  db_error :: "db_event list \<Rightarrow> db_op \<Rightarrow> string option"

text \<open>
  Statements run on the state and return a result: \<open>return\<close> a value, \<open>raise\<close>
  an exception, \<open>bind\<close> two statements in sequence (an exception of the first skips
  the second), \<open>try_except\<close> a body with the handler of its \<open>except\<close> clauses.
\<close>

definition return :: "'a \<Rightarrow> state \<Rightarrow> 'a result \<times> state" where
  "return a s = (Returned a, s)"

definition raise :: "exn \<Rightarrow> state \<Rightarrow> 'a result \<times> state" where
  "raise x s = (Raised x, s)"

definition bind ::
  "(state \<Rightarrow> 'a result \<times> state) \<Rightarrow> ('a \<Rightarrow> state \<Rightarrow> 'b result \<times> state) \<Rightarrow>
   state \<Rightarrow> 'b result \<times> state" where
  "bind m f s = (case m s of (Returned a, s1) \<Rightarrow> f a s1 | (Raised x, s1) \<Rightarrow> (Raised x, s1))"

definition try_except ::
  "(state \<Rightarrow> 'a result \<times> state) \<Rightarrow> (exn \<Rightarrow> state \<Rightarrow> 'a result \<times> state) \<Rightarrow>
   state \<Rightarrow> 'a result \<times> state" where
  "try_except body handler s =
     (case body s of (Returned a, s1) \<Rightarrow> (Returned a, s1) | (Raised x, s1) \<Rightarrow> handler x s1)"

definition flash :: "string \<Rightarrow> category \<Rightarrow> state \<Rightarrow> unit result \<times> state" where
  "flash message cat s = (Returned (), s\<lparr>flashes := flashes s @ [(message, cat)]\<rparr>)"

definition db_call :: "env \<Rightarrow> db_op \<Rightarrow> state \<Rightarrow> unit result \<times> state" where
  "db_call e op s =
     (case db_error e (db_log s) op of
        None \<Rightarrow> (Returned (), s\<lparr>db_log := db_log s @ [(op, None)]\<rparr>)
      | Some m \<Rightarrow> (Raised (SQLAlchemyError m), s\<lparr>db_log := db_log s @ [(op, Some m)]\<rparr>))"

definition rollback :: "state \<Rightarrow> unit result \<times> state" where
  "rollback s = (Returned (), s\<lparr>db_log := db_log s @ [(Rollback, None)]\<rparr>)"

definition query_all_persons :: "env \<Rightarrow> state \<Rightarrow> Person list result \<times> state" where
  "query_all_persons e = bind (db_call e QueryPersons) (\<lambda>_. return (persons_tbl e))"

definition query_all_tasks :: "env \<Rightarrow> state \<Rightarrow> Task list result \<times> state" where
  "query_all_tasks e = bind (db_call e QueryTasks) (\<lambda>_. return (tasks_tbl e))"

section \<open>The stored-procedure wrappers (lines 24-72)\<close>

definition truncate_postgres_tbl :: "env \<Rightarrow> string \<Rightarrow> state \<Rightarrow> unit result \<times> state" where
  "truncate_postgres_tbl e tbl_name =
     try_except
       (if tbl_name = ''stg_fact_housework_tasks'' then
          bind (db_call e (Execute ''CALL truncate_stg_fact_housework_tasks();'')) (\<lambda>_.
          bind (db_call e Commit) (\<lambda>_.
          flash ''Successfully truncated stg_fact_housework_tasks!'' Success))
        else flash (''Invalid table name: '' @ tbl_name) Danger)
       (\<lambda>x. case x of
          SQLAlchemyError m \<Rightarrow>
            bind rollback (\<lambda>_.
            flash (''Error while truncate stg_fact_housework_tasks: '' @ m) Danger)
        | _ \<Rightarrow> raise x)"

definition populate_fact_housework_tasks :: "env \<Rightarrow> state \<Rightarrow> unit result \<times> state" where
  "populate_fact_housework_tasks e =
     try_except
       (bind (db_call e (Execute ''CALL populate_fact_housework_tasks();'')) (\<lambda>_.
        bind (db_call e Commit) (\<lambda>_.
        flash ''Successfully populated fact_housework_tasks!'' Success)))
       (\<lambda>x. case x of
          SQLAlchemyError m \<Rightarrow>
            bind rollback (\<lambda>_.
            flash (''Error while populate fact_housework_tasks: '' @ m) Danger)
        | _ \<Rightarrow> raise x)"

definition backfill_agg_daily_housework_tasks :: "env \<Rightarrow> state \<Rightarrow> unit result \<times> state" where
  "backfill_agg_daily_housework_tasks e =
     try_except
       (bind (db_call e (Execute ''CALL backfill_agg_daily_housework_tasks();'')) (\<lambda>_.
        bind (db_call e Commit) (\<lambda>_.
        flash ''Successfully backfilling agg_daily_housework_tasks!'' Success)))
       (\<lambda>x. case x of
          SQLAlchemyError m \<Rightarrow>
            bind rollback (\<lambda>_.
            flash (''Error while backfilling agg_daily_housework_tasks: '' @ m) Danger)
        | _ \<Rightarrow> raise x)"

section \<open>The CSV loader (lines 75-137)\<close>

text \<open>
  \<open>filename.rsplit('.', 1)[1]\<close> is what follows the last dot; \<open>lower()\<close> changes
  the letters A to Z only, which is all that matters for a comparison with \<open>csv\<close>.
\<close>

definition rsplit_dot :: "string \<Rightarrow> string" where
  "rsplit_dot filename = rev (takeWhile (\<lambda>c. c \<noteq> CHR ''.'') (rev filename))"

definition lower_char :: "char \<Rightarrow> char" where
  "lower_char c =
     (case map_of (zip ''ABCDEFGHIJKLMNOPQRSTUVWXYZ'' ''abcdefghijklmnopqrstuvwxyz'') c of
        Some l \<Rightarrow> l | None \<Rightarrow> c)"

definition lower :: "string \<Rightarrow> string" where
  "lower s = map lower_char s"

definition allowed_file :: "string \<Rightarrow> bool" where
  "allowed_file filename =
     (CHR ''.'' \<in> set filename \<and> lower (rsplit_dot filename) \<in> set [''csv''])"

text \<open>
  A row of the data frame, as \<open>df.iterrows()\<close> yields it, maps column names to cells;
  \<open>row[k]\<close> raises \<open>KeyError\<close> for a column the file does not have. Reading and
  parsing the upload (\<open>read\<close>, \<open>decode\<close>, \<open>pd.read_csv\<close>) is the library's work: the
  uploaded file carries its outcome, the data frame or the message of the exception raised.
\<close>

type_synonym row = "(string \<times> pyval) list"

record csv_file =
  filename :: string
  parsed :: "string + row list"

definition row_get :: "row \<Rightarrow> string \<Rightarrow> state \<Rightarrow> pyval result \<times> state" where
  "row_get r k = (case map_of r k of None \<Rightarrow> raise (KeyError k) | Some v \<Rightarrow> return v)"

text \<open>
  The lookup dictionaries of lines 92-93: a later row of the table overwrites an earlier
  one of the same name. Their keys are strings, so \<open>get\<close> of any other value is
  \<open>None\<close>.
\<close>

definition persons_dict :: "Person list \<Rightarrow> (string \<rightharpoonup> int)" where
  "persons_dict ps = fold (\<lambda>p m. m(Person_name p \<mapsto> Person_id p)) ps Map.empty"

definition tasks_dict :: "Task list \<Rightarrow> (string \<rightharpoonup> int)" where
  "tasks_dict ts = fold (\<lambda>t m. m(Task_name t \<mapsto> Task_id t)) ts Map.empty"

fun dict_get :: "(string \<rightharpoonup> int) \<Rightarrow> pyval \<Rightarrow> int option" where
  "dict_get d (PyStr k) = d k"
| "dict_get d _ = None"

text \<open>The loop of lines 102-122, with \<open>task_records\<close> as its accumulator.\<close>

fun scan_rows ::
  "(string \<rightharpoonup> int) \<Rightarrow> (string \<rightharpoonup> int) \<Rightarrow> row list \<Rightarrow> TaskRecord list \<Rightarrow>
   state \<Rightarrow> TaskRecord list result \<times> state" where
  "scan_rows persons tasks [] task_records = return task_records"
| "scan_rows persons tasks (r # rows) task_records =
     bind (row_get r ''Person'') (\<lambda>person_cell.
     bind (row_get r ''Task'') (\<lambda>task_cell.
       let person_id = dict_get persons person_cell;
           task_id = dict_get tasks task_cell
       in if py_not person_id then
            bind (flash (''Person '' @ [CHR 0x27] @ py_str person_cell @ [CHR 0x27]
                         @ '' not found in database.'') Danger) (\<lambda>_.
            scan_rows persons tasks rows task_records)
          else if py_not task_id then
            bind (flash (''Task '' @ [CHR 0x27] @ py_str task_cell @ [CHR 0x27]
                         @ '' not found in database.'') Danger) (\<lambda>_.
            scan_rows persons tasks rows task_records)
          else
            bind (row_get r ''Date'') (\<lambda>date_cell.
            bind (row_get r ''Task Duration Minutes'') (\<lambda>minutes_cell.
            scan_rows persons tasks rows
              (task_records @
               [\<lparr>date = date_cell, person_id = opt_val person_id, task_id = opt_val task_id,
                 task_duration_minutes = minutes_cell\<rparr>])))))"

definition process_csv_body :: "env \<Rightarrow> csv_file \<Rightarrow> state \<Rightarrow> unit result \<times> state" where
  "process_csv_body e f =
     bind (query_all_persons e) (\<lambda>ps.
     bind (query_all_tasks e) (\<lambda>ts.
       let persons = persons_dict ps; tasks = tasks_dict ts
       in case parsed f of
            Inl m \<Rightarrow> raise (OtherException m)
          | Inr df \<Rightarrow>
              bind (scan_rows persons tasks df []) (\<lambda>task_records.
                if task_records \<noteq> [] then
                  bind (db_call e (BulkSaveObjects task_records)) (\<lambda>_.
                  bind (db_call e Commit) (\<lambda>_.
                  flash (''Successfully inserted '' @ str_nat (length task_records)
                         @ '' task records.'') Success))
                else flash ''No valid task records to insert.'' Warning)))"

definition process_csv :: "env \<Rightarrow> csv_file \<Rightarrow> state \<Rightarrow> unit result \<times> state" where
  "process_csv e f =
     try_except (process_csv_body e f)
       (\<lambda>x. case x of
          SQLAlchemyError m \<Rightarrow>
            bind rollback (\<lambda>_. flash (''Error processing CSV: '' @ m) Danger)
        | _ \<Rightarrow> flash (''Unexpected error: '' @ exn_str x) Danger)"

section \<open>The form and the view (lines 169-238)\<close>

text \<open>
  The form after \<open>TaskRecordForm()\<close> has processed the request: \<open>form.date.data\<close>,
  the two select fields coerced to integers, \<open>form.task_duration_minutes.data\<close> (an
  \<open>IntegerField\<close>: \<open>None\<close> when the submitted text is not an integer, the default
  \<open>0\<close> when the field is not submitted) and \<open>form.file.data\<close>.
\<close>

record TaskRecordForm =
  form_date :: pyval
  form_person :: "int option"
  form_task :: "int option"
  form_task_duration_minutes :: "int option"
  form_file :: "csv_file option"

datatype http_method = GET | POST

text \<open>
  \<open>action\<close> is \<open>request.form.get('action')\<close>. \<open>rest_valid\<close> is the outcome of the
  library's validation of the CSRF token and of the date, person, task and file fields,
  which the view does not look into.
\<close>

record request =
  http_method :: http_method
  action :: "string option"
  form :: TaskRecordForm
  rest_valid :: bool

text \<open>
  \<open>DataRequired\<close>, the one validator of the minutes field (line 173), accepts the data
  when it is truthy: an integer other than \<open>0\<close>.
\<close>

definition data_required :: "int option \<Rightarrow> bool" where
  "data_required d = (\<not> py_not d)"

definition validate_on_submit :: "request \<Rightarrow> bool" where
  "validate_on_submit req =
     (http_method req = POST \<and> rest_valid req
      \<and> data_required (form_task_duration_minutes (form req)))"

text \<open>\<open>d <= 0\<close> on the data of the minutes field: \<open>None <= 0\<close> raises \<open>TypeError\<close>.\<close>

definition none_le_int :: string where
  "none_le_int =
     [CHR 0x27] @ ''<='' @ [CHR 0x27] @ '' not supported between instances of ''
     @ [CHR 0x27] @ ''NoneType'' @ [CHR 0x27] @ '' and '' @ [CHR 0x27] @ ''int'' @ [CHR 0x27]"

definition le_zero :: "int option \<Rightarrow> state \<Rightarrow> bool result \<times> state" where
  "le_zero d =
     (case d of
        None \<Rightarrow> raise (TypeError none_le_int)
      | Some n \<Rightarrow> return (n \<le> 0))"

datatype response =
    Redirect string
  | RenderTemplate string "(int \<times> string) list" "(int \<times> string) list"

definition submit_record :: "env \<Rightarrow> request \<Rightarrow> state \<Rightarrow> response result \<times> state" where
  "submit_record e req =
     bind (truncate_postgres_tbl e ''stg_fact_housework_tasks'') (\<lambda>_.
     bind (db_call e (Add \<lparr>date = form_date (form req),
                           person_id = opt_val (form_person (form req)),
                           task_id = opt_val (form_task (form req)),
                           task_duration_minutes =
                             opt_val (form_task_duration_minutes (form req))\<rparr>)) (\<lambda>_.
     bind (db_call e Commit) (\<lambda>_.
     bind (flash ''Task record added successfully!'' Success) (\<lambda>_.
     bind (populate_fact_housework_tasks e) (\<lambda>_.
     bind (backfill_agg_daily_housework_tasks e) (\<lambda>_.
     return (Redirect ''add_task_record'')))))))"

definition upload_csv :: "env \<Rightarrow> csv_file \<Rightarrow> state \<Rightarrow> response result \<times> state" where
  "upload_csv e f =
     bind (truncate_postgres_tbl e ''stg_fact_housework_tasks'') (\<lambda>_.
     if \<not> allowed_file (filename f) then
       bind (flash ''Please upload a valid CSV file.'' Danger) (\<lambda>_.
       return (Redirect ''add_task_record''))
     else
       bind (process_csv e f) (\<lambda>_.
       bind (flash ''CSV file processed successfully!'' Success) (\<lambda>_.
       bind (populate_fact_housework_tasks e) (\<lambda>_.
       bind (backfill_agg_daily_housework_tasks e) (\<lambda>_.
       return (Redirect ''add_task_record''))))))"

definition invalid_submission :: "request \<Rightarrow> state \<Rightarrow> unit result \<times> state" where
  "invalid_submission req =
     bind (flash ''Invalid action or form submission.'' Danger) (\<lambda>_.
     bind (le_zero (form_task_duration_minutes (form req))) (\<lambda>nonpositive.
     if nonpositive \<and> action req = Some ''submit_record'' then
       flash ''Minutes field should be greater than 0.'' Danger
     else return ()))"

text \<open>
  \<open>form.file.data\<close> is truthy when a file with a non-empty name was uploaded.
\<close>

definition file_truthy :: "csv_file option \<Rightarrow> bool" where
  "file_truthy fo = (case fo of None \<Rightarrow> False | Some f \<Rightarrow> filename f \<noteq> [])"

definition add_task_record :: "env \<Rightarrow> request \<Rightarrow> state \<Rightarrow> response result \<times> state" where
  "add_task_record e req =
     bind (query_all_persons e) (\<lambda>ps.
     bind (query_all_tasks e) (\<lambda>ts.
       let person_choices = map (\<lambda>p. (Person_id p, Person_name p)) ps;
           task_choices = map (\<lambda>t. (Task_id t, Task_name t)) ts;
           render = return (RenderTemplate ''task_record_form.html''
                              person_choices task_choices)
       in if http_method req = POST then
            if action req = Some ''submit_record'' \<and> validate_on_submit req then
              submit_record e req
            else if action req = Some ''upload_csv'' \<and> file_truthy (form_file (form req)) then
              (case form_file (form req) of
                 Some f \<Rightarrow> upload_csv e f
               | None \<Rightarrow> bind (invalid_submission req) (\<lambda>_. render))
            else bind (invalid_submission req) (\<lambda>_. render)
          else render))"

section \<open>Notions used to state the properties\<close>

text \<open>
  What a row gives: \<open>cell r k\<close> is its cell in column \<open>k\<close>, \<open>lookup_id d r k\<close> the id
  that the dictionary \<open>d\<close> has for that cell. A row \<open>resolves\<close> when both ids pass the
  truthiness tests of lines 107 and 111; its \<open>names_present\<close> when both names are keys of
  the dictionaries, whatever their ids. \<open>diagnostic\<close> is the message flashed for a row
  that does not resolve, \<open>record_of\<close> the \<open>TaskRecord\<close> built from one that does.
\<close>

definition cell :: "row \<Rightarrow> string \<Rightarrow> pyval" where
  "cell r k = (case map_of r k of None \<Rightarrow> PyNone | Some v \<Rightarrow> v)"

definition lookup_id :: "(string \<rightharpoonup> int) \<Rightarrow> row \<Rightarrow> string \<Rightarrow> int option" where
  "lookup_id d r k = (case map_of r k of None \<Rightarrow> None | Some v \<Rightarrow> dict_get d v)"

definition resolves :: "(string \<rightharpoonup> int) \<Rightarrow> (string \<rightharpoonup> int) \<Rightarrow> row \<Rightarrow> bool" where
  "resolves persons tasks r =
     (\<not> py_not (lookup_id persons r ''Person'') \<and> \<not> py_not (lookup_id tasks r ''Task''))"

definition not_found_msg :: "string \<Rightarrow> pyval \<Rightarrow> string" where
  "not_found_msg entity v =
     entity @ '' '' @ [CHR 0x27] @ py_str v @ [CHR 0x27] @ '' not found in database.''"

definition not_found :: "string \<Rightarrow> pyval \<Rightarrow> string \<times> category" where
  "not_found entity v = (not_found_msg entity v, Danger)"

definition names_present :: "(string \<rightharpoonup> int) \<Rightarrow> (string \<rightharpoonup> int) \<Rightarrow> row \<Rightarrow> bool" where
  "names_present persons tasks r =
     (lookup_id persons r ''Person'' \<noteq> None \<and> lookup_id tasks r ''Task'' \<noteq> None)"

definition has_columns :: "row \<Rightarrow> bool" where
  "has_columns r =
     (map_of r ''Person'' \<noteq> None \<and> map_of r ''Task'' \<noteq> None \<and>
      map_of r ''Date'' \<noteq> None \<and> map_of r ''Task Duration Minutes'' \<noteq> None)"

text \<open>
  The state after two successful reference reads, and the condition that the two reads
  made from a state succeed.
\<close>

definition after_queries :: "state \<Rightarrow> state" where
  "after_queries s = s\<lparr>db_log := db_log s @ [(QueryPersons, None), (QueryTasks, None)]\<rparr>"

definition queries_ok :: "env \<Rightarrow> state \<Rightarrow> bool" where
  "queries_ok e s =
     (db_error e (db_log s) QueryPersons = None \<and>
      db_error e (db_log s @ [(QueryPersons, None)]) QueryTasks = None)"

definition diagnostic :: "(string \<rightharpoonup> int) \<Rightarrow> (string \<rightharpoonup> int) \<Rightarrow> row \<Rightarrow> (string \<times> category) list" where
  "diagnostic persons tasks r =
     (if py_not (lookup_id persons r ''Person'') then [not_found ''Person'' (cell r ''Person'')]
      else if py_not (lookup_id tasks r ''Task'') then [not_found ''Task'' (cell r ''Task'')]
      else [])"

definition record_of :: "(string \<rightharpoonup> int) \<Rightarrow> (string \<rightharpoonup> int) \<Rightarrow> row \<Rightarrow> TaskRecord" where
  "record_of persons tasks r =
     \<lparr>date = cell r ''Date'',
      person_id = opt_val (lookup_id persons r ''Person''),
      task_id = opt_val (lookup_id tasks r ''Task''),
      task_duration_minutes = cell r ''Task Duration Minutes''\<rparr>"

text \<open>
  The loop reads the Date and the minutes of a row only when the row resolves.
\<close>

definition readable :: "(string \<rightharpoonup> int) \<Rightarrow> (string \<rightharpoonup> int) \<Rightarrow> row \<Rightarrow> bool" where
  "readable persons tasks r =
     (map_of r ''Person'' \<noteq> None \<and> map_of r ''Task'' \<noteq> None \<and>
      (resolves persons tasks r \<longrightarrow>
         map_of r ''Date'' \<noteq> None \<and> map_of r ''Task Duration Minutes'' \<noteq> None))"

definition valid_records :: "env \<Rightarrow> row list \<Rightarrow> TaskRecord list" where
  "valid_records e df =
     map (record_of (persons_dict (persons_tbl e)) (tasks_dict (tasks_tbl e)))
       (filter (names_present (persons_dict (persons_tbl e)) (tasks_dict (tasks_tbl e))) df)"

definition diagnostics :: "env \<Rightarrow> row list \<Rightarrow> (string \<times> category) list" where
  "diagnostics e df =
     concat (map (diagnostic (persons_dict (persons_tbl e)) (tasks_dict (tasks_tbl e))) df)"

text \<open>
  Shapes of the session log. \<open>procedure_calls\<close> are the statements executed, in order.
  A \<open>boundary\<close> of a statement is what one wrapper leaves in the log: the call and its
  commit, or the failed call and a rollback, or the call, its failed commit and a
  rollback. \<open>all_ok\<close> holds when no call of the log raised.
\<close>

definition procedure_calls :: "db_event list \<Rightarrow> string list" where
  "procedure_calls evs = concat (map (\<lambda>ev. case fst ev of Execute sql \<Rightarrow> [sql] | _ \<Rightarrow> []) evs)"

definition boundary :: "string \<Rightarrow> db_event list \<Rightarrow> bool" where
  "boundary sql evs =
     (case evs of
        [ev1, ev2] \<Rightarrow>
          fst ev1 = Execute sql \<and> ev2 = (if snd ev1 = None then (Commit, None) else (Rollback, None))
      | [ev1, ev2, ev3] \<Rightarrow>
          ev1 = (Execute sql, None) \<and> fst ev2 = Commit \<and> snd ev2 \<noteq> None \<and> ev3 = (Rollback, None)
      | _ \<Rightarrow> False)"

definition all_ok :: "db_event list \<Rightarrow> bool" where
  "all_ok evs = list_all (\<lambda>ev. snd ev = None) evs"

text \<open>
  A request is an ingestion event when the view takes the \<open>submit_record\<close> branch and
  the insert of lines 201-202 (which no \<open>try\<close> encloses) does not raise, or else
  when it is an upload whose file has an allowed extension.
\<close>

definition manual_record :: "request \<Rightarrow> TaskRecord" where
  "manual_record req =
     \<lparr>date = form_date (form req),
      person_id = opt_val (form_person (form req)),
      task_id = opt_val (form_task (form req)),
      task_duration_minutes = opt_val (form_task_duration_minutes (form req))\<rparr>"

definition insert_ok :: "env \<Rightarrow> request \<Rightarrow> state \<Rightarrow> bool" where
  "insert_ok e req s0 =
     (let s1 = snd (truncate_postgres_tbl e ''stg_fact_housework_tasks'' s0)
      in db_error e (db_log s1) (Add (manual_record req)) = None \<and>
         db_error e (db_log s1 @ [(Add (manual_record req), None)]) Commit = None)"

definition ingestion_event :: "env \<Rightarrow> request \<Rightarrow> state \<Rightarrow> bool" where
  "ingestion_event e req s0 =
     (if action req = Some ''submit_record'' \<and> validate_on_submit req then insert_ok e req s0
      else action req = Some ''upload_csv'' \<and>
           (case form_file (form req) of None \<Rightarrow> False | Some f \<Rightarrow> allowed_file (filename f)))"

text \<open>
  Concrete inputs, after the examples of the specification: Alice and Dishes are the
  reference data, the file has a row for Alice and one for the unknown Bob; Laundry is
  an unknown task.
\<close>

definition example_env :: env where
  "example_env =
     \<lparr>persons_tbl = [\<lparr>Person_id = 1, Person_name = ''Alice''\<rparr>],
      tasks_tbl = [\<lparr>Task_id = 1, Task_name = ''Dishes''\<rparr>],
      db_error = (\<lambda>_ _. None)\<rparr>"

definition empty_state :: state where
  "empty_state = \<lparr>flashes = [], db_log = []\<rparr>"

definition alice_row :: row where
  "alice_row = [(''Date'', PyStr ''2024-01-01''), (''Person'', PyStr ''Alice''),
       (''Task'', PyStr ''Dishes''), (''Task Duration Minutes'', PyInt 15)]"

definition bob_row :: row where
  "bob_row = [(''Date'', PyStr ''2024-01-01''), (''Person'', PyStr ''Bob''),
       (''Task'', PyStr ''Dishes''), (''Task Duration Minutes'', PyInt 10)]"

definition laundry_row :: row where
  "laundry_row = [(''Date'', PyStr ''2024-01-01''), (''Person'', PyStr ''Alice''),
       (''Task'', PyStr ''Laundry''), (''Task Duration Minutes'', PyInt 15)]"

definition alice_record :: TaskRecord where
  "alice_record = \<lparr>date = PyStr ''2024-01-01'', person_id = PyInt 1, task_id = PyInt 1,
       task_duration_minutes = PyInt 15\<rparr>"

definition csv_of :: "row list \<Rightarrow> csv_file" where
  "csv_of df = \<lparr>filename = ''tasks.csv'', parsed = Inr df\<rparr>"

definition unparsable_csv :: csv_file where
  "unparsable_csv = \<lparr>filename = ''tasks.csv'', parsed = Inl ''No columns to parse from file''\<rparr>"

definition zero_person_env :: env where
  "zero_person_env = example_env\<lparr>persons_tbl := [\<lparr>Person_id = 0, Person_name = ''Alice''\<rparr>]\<rparr>"

definition zero_task_env :: env where
  "zero_task_env = example_env\<lparr>tasks_tbl := [\<lparr>Task_id = 0, Task_name = ''Dishes''\<rparr>]\<rparr>"

definition failing_env :: "db_op \<Rightarrow> env" where
  "failing_env bad =
     example_env\<lparr>db_error := (\<lambda>log op. if op = bad then Some ''connection lost'' else None)\<rparr>"

definition insert_failing_env :: env where
  "insert_failing_env =
     example_env\<lparr>db_error := (\<lambda>log op.
        if op = Commit \<and> log \<noteq> [] \<and> (case fst (last log) of Add _ \<Rightarrow> True | _ \<Rightarrow> False)
        then Some ''connection lost'' else None)\<rparr>"

definition notes_txt :: csv_file where
  "notes_txt = \<lparr>filename = ''notes.txt'', parsed = Inr [alice_row]\<rparr>"

definition upload_request :: "csv_file \<Rightarrow> request" where
  "upload_request f =
     \<lparr>http_method = POST, action = Some ''upload_csv'',
      form = \<lparr>form_date = PyNone, form_person = None, form_task = None,
              form_task_duration_minutes = Some 0, form_file = Some f\<rparr>,
      rest_valid = False\<rparr>"

definition manual_request :: "string option \<Rightarrow> int option \<Rightarrow> request" where
  "manual_request act minutes =
     \<lparr>http_method = POST, action = act,
      form = \<lparr>form_date = PyOther ''2024-01-01'', form_person = Some 1, form_task = Some 1,
              form_task_duration_minutes = minutes, form_file = None\<rparr>,
      rest_valid = True\<rparr>"

section \<open>Properties\<close>

lemmas monad_defs = bind_def return_def raise_def try_except_def flash_def db_call_def rollback_def

lemmas example_defs = example_env_def empty_state_def alice_row_def bob_row_def laundry_row_def
  insert_failing_env_def notes_txt_def alice_record_def
  csv_of_def unparsable_csv_def zero_person_env_def zero_task_env_def failing_env_def
  upload_request_def manual_request_def

lemmas run_defs = add_task_record_def submit_record_def upload_csv_def invalid_submission_def
  process_csv_def process_csv_body_def truncate_postgres_tbl_def populate_fact_housework_tasks_def
  backfill_agg_daily_housework_tasks_def query_all_persons_def query_all_tasks_def
  validate_on_submit_def data_required_def le_zero_def file_truthy_def allowed_file_def
  rsplit_dot_def lower_def lower_char_def persons_dict_def tasks_dict_def row_get_def Let_def
  monad_defs

lemmas spec_defs = cell_def lookup_id_def resolves_def names_present_def has_columns_def
  not_found_def diagnostic_def record_of_def valid_records_def diagnostics_def queries_ok_def
  after_queries_def

lemma scan_rows_closed:
  "\<forall>r \<in> set rows. readable persons tasks r \<Longrightarrow>
   scan_rows persons tasks rows acc s =
     (Returned (acc @ map (record_of persons tasks) (filter (resolves persons tasks) rows)),
      s\<lparr>flashes := flashes s @ concat (map (diagnostic persons tasks) rows)\<rparr>)"
proof (induction rows arbitrary: acc s)
  case Nil
  then show ?case by (simp add: return_def)
next
  case (Cons r rows)
  from Cons.prems have rd: "readable persons tasks r" and rest: "\<forall>r \<in> set rows. readable persons tasks r"
    by simp_all
  from rd obtain cp ct where cp: "map_of r ''Person'' = Some cp" and ct: "map_of r ''Task'' = Some ct"
    by (auto simp: readable_def)
  have lp: "lookup_id persons r ''Person'' = dict_get persons cp"
    and lt: "lookup_id tasks r ''Task'' = dict_get tasks ct"
    using cp ct by (simp_all add: lookup_id_def)
  show ?case
  proof (cases "resolves persons tasks r")
    case True
    with rd obtain d m where d: "map_of r ''Date'' = Some d" and m: "map_of r ''Task Duration Minutes'' = Some m"
      by (auto simp: readable_def)
    from True have np: "\<not> py_not (dict_get persons cp)" and nt: "\<not> py_not (dict_get tasks ct)"
      by (simp_all add: resolves_def lp lt)
    have dg: "diagnostic persons tasks r = []"
      by (simp add: diagnostic_def lp lt np nt)
    have rc: "record_of persons tasks r =
        \<lparr>date = d, person_id = opt_val (dict_get persons cp), task_id = opt_val (dict_get tasks ct),
         task_duration_minutes = m\<rparr>"
      by (simp add: record_of_def lp lt cell_def d m)
    show ?thesis
      by (simp add: Cons.IH [OF rest] True dg rc cp ct d m np nt row_get_def monad_defs)
  next
    case False
    then have or: "py_not (dict_get persons cp) \<or> py_not (dict_get tasks ct)"
      by (simp add: resolves_def lp lt)
    show ?thesis
    proof (cases "py_not (dict_get persons cp)")
      case True
      have dg: "diagnostic persons tasks r = [not_found ''Person'' cp]"
        by (simp add: diagnostic_def lp True cell_def cp)
      show ?thesis
        by (simp add: Cons.IH [OF rest] \<open>\<not> resolves persons tasks r\<close> dg cp ct True
            not_found_def not_found_msg_def row_get_def monad_defs)
    next
      case np: False
      with or have pt: "py_not (dict_get tasks ct)" by simp
      have dg: "diagnostic persons tasks r = [not_found ''Task'' ct]"
        by (simp add: diagnostic_def lp lt np pt cell_def ct)
      show ?thesis
        by (simp add: Cons.IH [OF rest] \<open>\<not> resolves persons tasks r\<close> dg cp ct np pt
            not_found_def not_found_msg_def row_get_def monad_defs)
    qed
  qed
qed

lemma scan_rows_append:
  "scan_rows persons tasks (xs @ ys) acc s =
     bind (scan_rows persons tasks xs acc) (\<lambda>acc1. scan_rows persons tasks ys acc1) s"
proof (induction xs arbitrary: acc s)
  case Nil show ?case by (simp add: bind_def return_def)
next
  case (Cons r xs)
  show ?case
    by (simp add: Cons.IH row_get_def monad_defs Let_def split: option.splits prod.splits result.splits)
qed

lemma scan_rows_frame:
  "scan_rows persons tasks rows acc s = (res, s') \<Longrightarrow>
   db_log s' = db_log s \<and> (\<exists>fl. flashes s' = flashes s @ fl) \<and>
   (\<forall>x. res = Raised x \<longrightarrow> (\<exists>k. x = KeyError k))"
proof (induction rows arbitrary: acc s)
  case Nil then show ?case by (auto simp: return_def)
next
  case (Cons r rows)
  then show ?case
    by (fastforce simp: row_get_def monad_defs Let_def split: option.splits if_splits)
qed

lemma queries_run:
  "queries_ok e s \<Longrightarrow>
   bind (query_all_persons e) (\<lambda>ps. bind (query_all_tasks e) (\<lambda>ts. k ps ts)) s =
     k (persons_tbl e) (tasks_tbl e) (after_queries s)"
  by (simp add: queries_ok_def after_queries_def query_all_persons_def query_all_tasks_def monad_defs)

text \<open>
  Claim C3. A row whose Person name or Task name is not in its reference mapping is to
  be left out, with a diagnostic naming the missing entity, and the loop is to go on.
  The diagnostic is chosen by the truthiness tests of lines 107 and 111, so it does not
  always name what is missing: for a person that the mapping holds with id \<open>0\<close> and a
  task that it does not hold, the message says that the person was not found, and the
  missing task is not named.
\<close>

theorem present_person_named_for_missing_task:
  "persons_dict (persons_tbl zero_person_env) ''Alice'' = Some 0 \<and>
   tasks_dict (tasks_tbl zero_person_env) ''Laundry'' = None \<and>
   process_csv zero_person_env (csv_of [laundry_row]) empty_state =
     (Returned (),
      \<lparr>flashes = [(not_found_msg ''Person'' (PyStr ''Alice''), Danger),
                  (''No valid task records to insert.'', Warning)],
       db_log = [(QueryPersons, None), (QueryTasks, None)]\<rparr>)"
  by (simp add: run_defs example_defs laundry_row_def not_found_msg_def)

text \<open>
  What the loop does for every row whose Person name or Task name is not in its
  mapping: the row is left out of \<open>task_records\<close>, one diagnostic is flashed for it,
  and the loop goes on. Scanning \<open>pre @ r # post\<close> is scanning \<open>pre\<close>, flashing the
  diagnostic of \<open>r\<close>, and scanning \<open>post\<close> with the records that \<open>pre\<close> gave. The
  diagnostic names the person when the person lookup gave \<open>None\<close> or \<open>0\<close>, the
  task otherwise.
\<close>

theorem unresolved_row_skipped:
  assumes "map_of r ''Person'' = Some cp" and "map_of r ''Task'' = Some ct"
    and "dict_get persons cp = None \<or> dict_get tasks ct = None"
  shows "scan_rows persons tasks (pre @ r # post) acc s =
     bind (scan_rows persons tasks pre acc) (\<lambda>acc1.
       bind (flash (if py_not (dict_get persons cp) then not_found_msg ''Person'' cp
                    else not_found_msg ''Task'' ct) Danger) (\<lambda>_.
       scan_rows persons tasks post acc1)) s"
proof -
  have step: "scan_rows persons tasks (r # post) a =
       bind (flash (if py_not (dict_get persons cp) then not_found_msg ''Person'' cp
                    else not_found_msg ''Task'' ct) Danger) (\<lambda>_.
       scan_rows persons tasks post a)" for a
    using assms by (auto simp: fun_eq_iff row_get_def not_found_msg_def monad_defs)
  show ?thesis
    by (simp add: scan_rows_append step del: scan_rows.simps)
qed

theorem unresolved_row_skipped_witness:
  "scan_rows (persons_dict (persons_tbl example_env)) (tasks_dict (tasks_tbl example_env))
     ([alice_row] @ bob_row # [alice_row]) [] empty_state =
     (Returned [alice_record, alice_record],
      \<lparr>flashes = [(not_found_msg ''Person'' (PyStr ''Bob''), Danger)], db_log = []\<rparr>)"
proof -
  have h1: "map_of bob_row ''Person'' = Some (PyStr ''Bob'')"
    and h2: "map_of bob_row ''Task'' = Some (PyStr ''Dishes'')"
    by (simp_all add: bob_row_def)
  have h3: "dict_get (persons_dict (persons_tbl example_env)) (PyStr ''Bob'') = None \<or>
      dict_get (tasks_dict (tasks_tbl example_env)) (PyStr ''Dishes'') = None"
    by (simp add: example_env_def persons_dict_def)
  have pn: "py_not (persons_dict (persons_tbl example_env) ''Bob'')"
    by (simp add: example_env_def persons_dict_def)
  have one: "scan_rows (persons_dict (persons_tbl example_env)) (tasks_dict (tasks_tbl example_env))
      [alice_row] acc s = (Returned (acc @ [alice_record]), s)" for acc s
    by (simp add: example_defs persons_dict_def tasks_dict_def row_get_def monad_defs)
  from unresolved_row_skipped [OF h1 h2 h3, of "[alice_row]" "[alice_row]" "[]" empty_state]
  show ?thesis
    by (simp add: one pn bind_def flash_def empty_state_def del: scan_rows.simps)
qed

text \<open>
  Claim C9. The ids are tested for truthiness, so a name that the mapping holds with
  id \<open>0\<close> is treated like a missing one: the row is skipped with the
  \<open>not found in database\<close> diagnostic of the person, or of the task when the person
  resolved to an id other than \<open>0\<close>.
\<close>

theorem zero_id_row_skipped:
  assumes "map_of r ''Person'' = Some (PyStr pname)" and "map_of r ''Task'' = Some (PyStr tname)"
  shows "(persons pname = Some 0 \<longrightarrow>
            scan_rows persons tasks (r # rest) acc s =
              bind (flash (not_found_msg ''Person'' (PyStr pname)) Danger) (\<lambda>_.
              scan_rows persons tasks rest acc) s) \<and>
         (\<not> py_not (persons pname) \<and> tasks tname = Some 0 \<longrightarrow>
            scan_rows persons tasks (r # rest) acc s =
              bind (flash (not_found_msg ''Task'' (PyStr tname)) Danger) (\<lambda>_.
              scan_rows persons tasks rest acc) s)"
  using assms by (simp add: row_get_def not_found_msg_def monad_defs)

theorem zero_id_row_skipped_witness:
  "scan_rows (persons_dict (persons_tbl zero_person_env)) (tasks_dict (tasks_tbl zero_person_env))
     [alice_row] [] empty_state =
     (Returned [], \<lparr>flashes = [(not_found_msg ''Person'' (PyStr ''Alice''), Danger)], db_log = []\<rparr>) \<and>
   scan_rows (persons_dict (persons_tbl zero_task_env)) (tasks_dict (tasks_tbl zero_task_env))
     [alice_row] [] empty_state =
     (Returned [], \<lparr>flashes = [(not_found_msg ''Task'' (PyStr ''Dishes''), Danger)], db_log = []\<rparr>)"
proof -
  have h1: "map_of alice_row ''Person'' = Some (PyStr ''Alice'')"
    and h2: "map_of alice_row ''Task'' = Some (PyStr ''Dishes'')"
    by (simp_all add: alice_row_def)
  have p0: "persons_dict (persons_tbl zero_person_env) ''Alice'' = Some 0"
    by (simp add: zero_person_env_def example_env_def persons_dict_def)
  have p1: "\<not> py_not (persons_dict (persons_tbl zero_task_env) ''Alice'') \<and>
      tasks_dict (tasks_tbl zero_task_env) ''Dishes'' = Some 0"
    by (simp add: zero_task_env_def example_env_def persons_dict_def tasks_dict_def)
  from zero_id_row_skipped [OF h1 h2, of "persons_dict (persons_tbl zero_person_env)"
      "tasks_dict (tasks_tbl zero_person_env)" "[]" "[]" empty_state] p0
  have a: "scan_rows (persons_dict (persons_tbl zero_person_env))
      (tasks_dict (tasks_tbl zero_person_env)) [alice_row] [] empty_state =
     (Returned [], \<lparr>flashes = [(not_found_msg ''Person'' (PyStr ''Alice''), Danger)], db_log = []\<rparr>)"
    by (simp add: bind_def flash_def return_def empty_state_def)
  from zero_id_row_skipped [OF h1 h2, of "persons_dict (persons_tbl zero_task_env)"
      "tasks_dict (tasks_tbl zero_task_env)" "[]" "[]" empty_state] p1
  have b: "scan_rows (persons_dict (persons_tbl zero_task_env))
      (tasks_dict (tasks_tbl zero_task_env)) [alice_row] [] empty_state =
     (Returned [], \<lparr>flashes = [(not_found_msg ''Task'' (PyStr ''Dishes''), Danger)], db_log = []\<rparr>)"
    by (simp add: bind_def flash_def return_def empty_state_def)
  from a b show ?thesis by (rule conjI)
qed

lemma persons_dict_ran_aux:
  "fold (\<lambda>p m. m(Person_name p \<mapsto> Person_id p)) ps m0 k = Some v \<Longrightarrow>
   m0 k = Some v \<or> v \<in> Person_id ` set ps"
  by (induction ps arbitrary: m0) (fastforce split: if_splits)+

lemma persons_dict_ran: "persons_dict ps k = Some v \<Longrightarrow> v \<in> Person_id ` set ps"
  using persons_dict_ran_aux [of ps Map.empty k v] by (simp add: persons_dict_def)

lemma tasks_dict_ran_aux:
  "fold (\<lambda>t m. m(Task_name t \<mapsto> Task_id t)) ts m0 k = Some v \<Longrightarrow>
   m0 k = Some v \<or> v \<in> Task_id ` set ts"
  by (induction ts arbitrary: m0) (fastforce split: if_splits)+

lemma tasks_dict_ran: "tasks_dict ts k = Some v \<Longrightarrow> v \<in> Task_id ` set ts"
  using tasks_dict_ran_aux [of ts Map.empty k v] by (simp add: tasks_dict_def)

lemma dict_get_ran: "dict_get d c = Some v \<Longrightarrow> \<exists>k. d k = Some v"
  by (cases c) auto

lemma resolves_iff_present:
  assumes "\<forall>p \<in> set ps. Person_id p \<noteq> 0" and "\<forall>t \<in> set ts. Task_id t \<noteq> 0"
  shows "resolves (persons_dict ps) (tasks_dict ts) r = names_present (persons_dict ps) (tasks_dict ts) r"
proof -
  have a: "py_not (lookup_id (persons_dict ps) r k) = (lookup_id (persons_dict ps) r k = None)" for k
  proof (cases "lookup_id (persons_dict ps) r k")
    case None then show ?thesis by simp
  next
    case (Some v)
    then obtain c where "dict_get (persons_dict ps) c = Some v"
      by (auto simp: lookup_id_def split: option.splits)
    then obtain n where "persons_dict ps n = Some v" using dict_get_ran by blast
    then have "v \<in> Person_id ` set ps" by (rule persons_dict_ran)
    with assms(1) have "v \<noteq> 0" by auto
    with Some show ?thesis by simp
  qed
  have b: "py_not (lookup_id (tasks_dict ts) r k) = (lookup_id (tasks_dict ts) r k = None)" for k
  proof (cases "lookup_id (tasks_dict ts) r k")
    case None then show ?thesis by simp
  next
    case (Some v)
    then obtain c where "dict_get (tasks_dict ts) c = Some v"
      by (auto simp: lookup_id_def split: option.splits)
    then obtain n where "tasks_dict ts n = Some v" using dict_get_ran by blast
    then have "v \<in> Task_id ` set ts" by (rule tasks_dict_ran)
    with assms(2) have "v \<noteq> 0" by auto
    with Some show ?thesis by simp
  qed
  show ?thesis by (simp add: resolves_def names_present_def a b)
qed

lemma has_columns_readable: "has_columns r \<Longrightarrow> readable persons tasks r"
  by (simp add: has_columns_def readable_def)

text \<open>
  Claim C4. When the file parses, the two reference reads succeed and no row resolves
  both of its names, \<open>process_csv\<close> makes no call on the session after the two reads
  (no bulk insert, no commit, no rollback) and ends with the warning
  \<open>No valid task records to insert.\<close>, after the diagnostics of the rows.
\<close>

theorem no_resolvable_rows_warning:
  assumes "parsed f = Inr df" and "queries_ok e s"
    and "\<forall>r \<in> set df. map_of r ''Person'' \<noteq> None \<and> map_of r ''Task'' \<noteq> None \<and>
           \<not> resolves (persons_dict (persons_tbl e)) (tasks_dict (tasks_tbl e)) r"
  shows "process_csv e f s =
     (Returned (),
      (after_queries s)\<lparr>flashes := flashes s
         @ concat (map (diagnostic (persons_dict (persons_tbl e)) (tasks_dict (tasks_tbl e))) df)
         @ [(''No valid task records to insert.'', Warning)]\<rparr>)"
proof -
  let ?P = "persons_dict (persons_tbl e)" and ?T = "tasks_dict (tasks_tbl e)"
  from assms(3) have rd: "\<forall>r \<in> set df. readable ?P ?T r"
    by (simp add: readable_def)
  from assms(3) have none: "filter (resolves ?P ?T) df = []"
    by (simp add: filter_empty_conv)
  have "process_csv_body e f s =
     (Returned (),
      (after_queries s)\<lparr>flashes := flashes s @ concat (map (diagnostic ?P ?T) df)
         @ [(''No valid task records to insert.'', Warning)]\<rparr>)"
    unfolding process_csv_body_def
    by (subst queries_run [OF assms(2)])
       (simp add: assms(1) scan_rows_closed [OF rd] none after_queries_def monad_defs)
  then show ?thesis
    by (simp add: process_csv_def try_except_def)
qed

theorem no_resolvable_rows_warning_witness:
  "process_csv example_env (csv_of [bob_row]) empty_state =
     (Returned (),
      \<lparr>flashes = [(not_found_msg ''Person'' (PyStr ''Bob''), Danger),
                  (''No valid task records to insert.'', Warning)],
       db_log = [(QueryPersons, None), (QueryTasks, None)]\<rparr>)"
proof -
  have h1: "parsed (csv_of [bob_row]) = Inr [bob_row]"
    by (simp add: csv_of_def)
  have h2: "queries_ok example_env empty_state"
    by (simp add: queries_ok_def example_env_def)
  have h3: "\<forall>r \<in> set [bob_row]. map_of r ''Person'' \<noteq> None \<and> map_of r ''Task'' \<noteq> None \<and>
      \<not> resolves (persons_dict (persons_tbl example_env)) (tasks_dict (tasks_tbl example_env)) r"
    by (simp add: spec_defs example_defs persons_dict_def tasks_dict_def)
  from no_resolvable_rows_warning [OF h1 h2 h3]
  show ?thesis
    by (simp add: spec_defs example_defs persons_dict_def tasks_dict_def)
qed

text \<open>
  Claim C2, amended. For a file whose rows have the four columns, when no call on the
  session fails and no reference id is \<open>0\<close>: if \<open>M \<ge> 1\<close> rows have both names in the
  reference mappings, \<open>process_csv\<close> makes one bulk insert of exactly the records of
  those \<open>M\<close> rows, in the order of the file, commits, and ends with the success
  message that reports \<open>M\<close>.
\<close>

theorem valid_rows_bulk_inserted:
  assumes "parsed f = Inr df" and "\<forall>r \<in> set df. has_columns r"
    and "\<forall>log op. db_error e log op = None"
    and "\<forall>p \<in> set (persons_tbl e). Person_id p \<noteq> 0"
    and "\<forall>t \<in> set (tasks_tbl e). Task_id t \<noteq> 0"
    and "M = length (filter (names_present (persons_dict (persons_tbl e))
                               (tasks_dict (tasks_tbl e))) df)"
    and "1 \<le> M"
  shows "length (valid_records e df) = M \<and>
     process_csv e f s =
       (Returned (),
        s\<lparr>flashes := flashes s @ diagnostics e df
             @ [(''Successfully inserted '' @ str_nat M @ '' task records.'', Success)],
          db_log := db_log s @ [(QueryPersons, None), (QueryTasks, None),
                                (BulkSaveObjects (valid_records e df), None), (Commit, None)]\<rparr>)"
proof -
  let ?P = "persons_dict (persons_tbl e)" and ?T = "tasks_dict (tasks_tbl e)"
  have q: "queries_ok e s" using assms(3) by (simp add: queries_ok_def)
  from assms(2) have rd: "\<forall>r \<in> set df. readable ?P ?T r"
    by (simp add: has_columns_readable)
  have eq: "resolves ?P ?T = names_present ?P ?T"
    using resolves_iff_present [OF assms(4) assms(5)] by (simp add: fun_eq_iff)
  from assms(6,7) have ne: "filter (names_present ?P ?T) df \<noteq> []" by auto
  have "process_csv_body e f s =
     (Returned (),
      s\<lparr>flashes := flashes s @ diagnostics e df
           @ [(''Successfully inserted '' @ str_nat M @ '' task records.'', Success)],
        db_log := db_log s @ [(QueryPersons, None), (QueryTasks, None),
           (BulkSaveObjects (valid_records e df), None), (Commit, None)]\<rparr>)"
    unfolding process_csv_body_def
    using ne assms(6)
    by (subst queries_run [OF q])
       (simp add: assms(1) scan_rows_closed [OF rd] eq assms(3) after_queries_def
          valid_records_def diagnostics_def monad_defs)
  then show ?thesis
    using assms(6) by (simp add: process_csv_def try_except_def valid_records_def)
qed

theorem valid_rows_bulk_inserted_witness:
  "process_csv example_env (csv_of [alice_row, bob_row]) empty_state =
     (Returned (),
      \<lparr>flashes = [(not_found_msg ''Person'' (PyStr ''Bob''), Danger),
                  (''Successfully inserted 1 task records.'', Success)],
       db_log = [(QueryPersons, None), (QueryTasks, None),
                 (BulkSaveObjects [alice_record], None), (Commit, None)]\<rparr>)"
proof -
  have h1: "parsed (csv_of [alice_row, bob_row]) = Inr [alice_row, bob_row]"
    by (simp add: csv_of_def)
  have h2: "\<forall>r \<in> set [alice_row, bob_row]. has_columns r"
    by (simp add: has_columns_def alice_row_def bob_row_def)
  have h3: "\<forall>log op. db_error example_env log op = None"
    by (simp add: example_env_def)
  have h4: "\<forall>p \<in> set (persons_tbl example_env). Person_id p \<noteq> 0"
    by (simp add: example_env_def)
  have h5: "\<forall>t \<in> set (tasks_tbl example_env). Task_id t \<noteq> 0"
    by (simp add: example_env_def)
  have h6: "1 = length (filter (names_present (persons_dict (persons_tbl example_env))
       (tasks_dict (tasks_tbl example_env))) [alice_row, bob_row])"
    by (simp add: spec_defs example_defs persons_dict_def tasks_dict_def)
  have h7: "(1::nat) \<le> 1" by simp
  from valid_rows_bulk_inserted [OF h1 h2 h3 h4 h5 h6 h7, of empty_state]
  show ?thesis
    by (simp add: spec_defs example_defs persons_dict_def tasks_dict_def str_nat.simps)
qed

text \<open>
  The claim as the specification states it fails on a file of which no row resolves
  (no bulk insert, a warning instead of the success message), and on a row whose name
  is in the mapping with id \<open>0\<close>.
\<close>

theorem bulk_insert_counterexample:
  "process_csv example_env (csv_of [bob_row]) empty_state =
     (Returned (),
      \<lparr>flashes = [(not_found_msg ''Person'' (PyStr ''Bob''), Danger),
                  (''No valid task records to insert.'', Warning)],
       db_log = [(QueryPersons, None), (QueryTasks, None)]\<rparr>) \<and>
   names_present (persons_dict (persons_tbl zero_person_env))
     (tasks_dict (tasks_tbl zero_person_env)) alice_row \<and>
   process_csv zero_person_env (csv_of [alice_row]) empty_state =
     (Returned (),
      \<lparr>flashes = [(not_found_msg ''Person'' (PyStr ''Alice''), Danger),
                  (''No valid task records to insert.'', Warning)],
       db_log = [(QueryPersons, None), (QueryTasks, None)]\<rparr>)"
  by (simp add: run_defs example_defs not_found_msg_def names_present_def lookup_id_def)

lemma procedure_calls_append [simp]:
  "procedure_calls (xs @ ys) = procedure_calls xs @ procedure_calls ys"
  by (simp add: procedure_calls_def)

lemma boundary_calls: "boundary sql evs \<Longrightarrow> procedure_calls evs = [sql]"
  by (auto simp: boundary_def procedure_calls_def split: list.splits if_splits)

lemma truncate_boundary:
  "\<exists>s1 T fl. truncate_postgres_tbl e ''stg_fact_housework_tasks'' s = (Returned (), s1) \<and>
     db_log s1 = db_log s @ T \<and> boundary ''CALL truncate_stg_fact_housework_tasks();'' T \<and>
     flashes s1 = flashes s @ [fl]"
  by (simp add: truncate_postgres_tbl_def boundary_def monad_defs split: option.splits)

lemma populate_boundary:
  "\<exists>s1 T fl. populate_fact_housework_tasks e s = (Returned (), s1) \<and>
     db_log s1 = db_log s @ T \<and> boundary ''CALL populate_fact_housework_tasks();'' T \<and>
     flashes s1 = flashes s @ [fl]"
  by (simp add: populate_fact_housework_tasks_def boundary_def monad_defs split: option.splits)

lemma backfill_boundary:
  "\<exists>s1 T fl. backfill_agg_daily_housework_tasks e s = (Returned (), s1) \<and>
     db_log s1 = db_log s @ T \<and> boundary ''CALL backfill_agg_daily_housework_tasks();'' T \<and>
     flashes s1 = flashes s @ [fl]"
  by (simp add: backfill_agg_daily_housework_tasks_def boundary_def monad_defs split: option.splits)

lemma db_call_cases:
  obtains (ok) "db_error e (db_log s) op = None"
      "db_call e op s = (Returned (), s\<lparr>db_log := db_log s @ [(op, None)]\<rparr>)"
    | (fail) m where "db_error e (db_log s) op = Some m"
      "db_call e op s = (Raised (SQLAlchemyError m), s\<lparr>db_log := db_log s @ [(op, Some m)]\<rparr>)"
  by (cases "db_error e (db_log s) op") (auto simp: db_call_def)

lemma all_ok_append [simp]: "all_ok (xs @ ys) = (all_ok xs \<and> all_ok ys)"
  by (simp add: all_ok_def)

text \<open>What the body of the try block can do.\<close>

lemma process_csv_body_cases:
  assumes "process_csv_body e f s = (res, s1)"
  shows "\<exists>evs fl. db_log s1 = db_log s @ evs \<and> flashes s1 = flashes s @ fl \<and>
           procedure_calls evs = [] \<and>
           (case res of
              Returned _ \<Rightarrow> all_ok evs \<and> fl \<noteq> [] \<and> (\<exists>df. parsed f = Inr df)
            | Raised (SQLAlchemyError m) \<Rightarrow>
                (\<exists>evs0 op. evs = evs0 @ [(op, Some m)] \<and> all_ok evs0)
            | Raised (OtherException m) \<Rightarrow> all_ok evs \<and> parsed f = Inl m
            | Raised (KeyError k) \<Rightarrow> all_ok evs \<and> (\<exists>df. parsed f = Inr df)
            | Raised (TypeError m) \<Rightarrow> False)"
proof (cases rule: db_call_cases [of e s QueryPersons])
  case (fail m)
  with assms show ?thesis
    by (auto simp: process_csv_body_def query_all_persons_def bind_def procedure_calls_def all_ok_def)
next
  case ok
  let ?s1 = "s\<lparr>db_log := db_log s @ [(QueryPersons, None)]\<rparr>"
  show ?thesis
  proof (cases rule: db_call_cases [of e ?s1 QueryTasks])
    case (fail m)
    with ok assms show ?thesis
      by (auto simp: process_csv_body_def query_all_persons_def query_all_tasks_def bind_def
          return_def procedure_calls_def all_ok_def)
  next
    case ok2: ok
    let ?s2 = "after_queries s"
    let ?P = "persons_dict (persons_tbl e)" and ?T = "tasks_dict (tasks_tbl e)"
    have q: "queries_ok e s" using ok(1) ok2(1) by (simp add: queries_ok_def)
    have body: "process_csv_body e f s =
      (case parsed f of
         Inl m \<Rightarrow> raise (OtherException m)
       | Inr df \<Rightarrow>
           bind (scan_rows ?P ?T df []) (\<lambda>task_records.
             if task_records \<noteq> [] then
               bind (db_call e (BulkSaveObjects task_records)) (\<lambda>_.
               bind (db_call e Commit) (\<lambda>_.
               flash (''Successfully inserted '' @ str_nat (length task_records)
                      @ '' task records.'') Success))
             else flash ''No valid task records to insert.'' Warning)) ?s2"
      unfolding process_csv_body_def by (subst queries_run [OF q]) simp
    have log2: "db_log ?s2 = db_log s @ [(QueryPersons, None), (QueryTasks, None)]"
      and fl2: "flashes ?s2 = flashes s"
      by (simp_all add: after_queries_def)
    show ?thesis
    proof (cases "parsed f")
      case (Inl m)
      with assms body show ?thesis
        by (auto simp: raise_def log2 fl2 procedure_calls_def all_ok_def)
    next
      case (Inr df)
      obtain r s3 where sc: "scan_rows ?P ?T df [] ?s2 = (r, s3)" by fastforce
      from scan_rows_frame [OF sc] obtain fl where
        log3: "db_log s3 = db_log ?s2" and fl3: "flashes s3 = flashes ?s2 @ fl"
        and ke: "\<forall>x. r = Raised x \<longrightarrow> (\<exists>k. x = KeyError k)" by blast
      show ?thesis
      proof (cases r)
        case (Raised x)
        with ke obtain k where "x = KeyError k" by blast
        with Raised assms body Inr sc log2 fl2 log3 fl3 show ?thesis
          by (auto simp: bind_def procedure_calls_def all_ok_def)
      next
        case (Returned recs)
        show ?thesis
        proof (cases "recs = []")
          case True
          with Returned assms body Inr sc log2 fl2 log3 fl3 show ?thesis
            by (auto simp: bind_def flash_def procedure_calls_def all_ok_def)
        next
          case False
          show ?thesis
          proof (cases rule: db_call_cases [of e s3 "BulkSaveObjects recs"])
            case (fail m)
            with False Returned assms body Inr sc log2 fl2 log3 fl3 show ?thesis
              by (auto simp: bind_def procedure_calls_def all_ok_def)
          next
            case ok3: ok
            let ?s4 = "s3\<lparr>db_log := db_log s3 @ [(BulkSaveObjects recs, None)]\<rparr>"
            show ?thesis
            proof (cases rule: db_call_cases [of e ?s4 Commit])
              case (fail m)
              with ok3 False Returned assms body Inr sc log2 fl2 log3 fl3 show ?thesis
                by (auto simp: bind_def procedure_calls_def all_ok_def)
            next
              case ok4: ok
              with ok3 False Returned assms body Inr sc log2 fl2 log3 fl3 show ?thesis
                by (auto simp: bind_def flash_def procedure_calls_def all_ok_def)
            qed
          qed
        qed
      qed
    qed
  qed
qed



lemma process_csv_frame:
  "\<exists>s2 evs fl. process_csv e f s = (Returned (), s2) \<and> db_log s2 = db_log s @ evs \<and>
     procedure_calls evs = [] \<and> flashes s2 = flashes s @ fl \<and> fl \<noteq> []"
proof -
  obtain res s1 where b: "process_csv_body e f s = (res, s1)" by fastforce
  from process_csv_body_cases [OF b] obtain evs fl where
    lg: "db_log s1 = db_log s @ evs" and fl: "flashes s1 = flashes s @ fl" and
    pc: "procedure_calls evs = []" and
    cs: "case res of Returned _ \<Rightarrow> all_ok evs \<and> fl \<noteq> [] \<and> (\<exists>df. parsed f = Inr df)
            | Raised (SQLAlchemyError m) \<Rightarrow>
                (\<exists>evs0 op. evs = evs0 @ [(op, Some m)] \<and> all_ok evs0)
            | Raised (OtherException m) \<Rightarrow> all_ok evs \<and> parsed f = Inl m
            | Raised (KeyError k) \<Rightarrow> all_ok evs \<and> (\<exists>df. parsed f = Inr df)
            | Raised (TypeError m) \<Rightarrow> False"
    by blast
  show ?thesis
  proof (cases res)
    case (Returned u)
    with b cs lg fl pc show ?thesis
      by (auto simp: process_csv_def try_except_def)
  next
    case (Raised x)
    with b lg fl pc show ?thesis
      by (cases x) (auto simp: process_csv_def monad_defs procedure_calls_def)
  qed
qed

lemma allowed_file_nonempty: "allowed_file n \<Longrightarrow> n \<noteq> []"
  by (auto simp: allowed_file_def)

lemma upload_branch:
  assumes "http_method req = POST" and "action req = Some ''upload_csv''"
    and "form_file (form req) = Some f" and "filename f \<noteq> []" and "queries_ok e s"
  shows "add_task_record e req s = upload_csv e f (after_queries s)"
  unfolding add_task_record_def
  by (subst queries_run [OF assms(5)]) (simp add: assms file_truthy_def)

lemma submit_branch:
  assumes "http_method req = POST" and "action req = Some ''submit_record''"
    and "validate_on_submit req" and "queries_ok e s"
  shows "add_task_record e req s = submit_record e req (after_queries s)"
  unfolding add_task_record_def
  by (subst queries_run [OF assms(4)]) (simp add: assms)

lemma invalid_branch:
  assumes "http_method req = POST" and "queries_ok e s"
    and "\<not> (action req = Some ''submit_record'' \<and> validate_on_submit req)"
    and "\<not> (action req = Some ''upload_csv'' \<and> file_truthy (form_file (form req)))"
  shows "add_task_record e req s =
     bind (invalid_submission req) (\<lambda>_. return (RenderTemplate ''task_record_form.html''
        (map (\<lambda>p. (Person_id p, Person_name p)) (persons_tbl e))
        (map (\<lambda>t. (Task_id t, Task_name t)) (tasks_tbl e)))) (after_queries s)"
  unfolding add_task_record_def
  using assms(3,4) by (subst queries_run [OF assms(2)]) (auto simp: assms(1))

lemma upload_pipeline:
  assumes "allowed_file (filename f)"
  shows "\<exists>s1 s2 s' T I P B fl.
     truncate_postgres_tbl e ''stg_fact_housework_tasks'' s = (Returned (), s1) \<and>
     process_csv e f s1 = (Returned (), s2) \<and>
     upload_csv e f s = (Returned (Redirect ''add_task_record''), s') \<and>
     db_log s' = db_log s @ T @ I @ P @ B \<and>
     boundary ''CALL truncate_stg_fact_housework_tasks();'' T \<and> procedure_calls I = [] \<and>
     boundary ''CALL populate_fact_housework_tasks();'' P \<and>
     boundary ''CALL backfill_agg_daily_housework_tasks();'' B \<and>
     flashes s' = flashes s2 @ [(''CSV file processed successfully!'', Success)] @ fl"
proof -
  obtain s1 T where t: "truncate_postgres_tbl e ''stg_fact_housework_tasks'' s = (Returned (), s1)"
    and tl: "db_log s1 = db_log s @ T" and tb: "boundary ''CALL truncate_stg_fact_housework_tasks();'' T"
    using truncate_boundary [of e s] by blast
  obtain s2 I where c: "process_csv e f s1 = (Returned (), s2)"
    and cl: "db_log s2 = db_log s1 @ I" and ci: "procedure_calls I = []"
    using process_csv_frame [of e f s1] by blast
  let ?s3 = "s2\<lparr>flashes := flashes s2 @ [(''CSV file processed successfully!'', Success)]\<rparr>"
  obtain s4 P fl4 where p: "populate_fact_housework_tasks e ?s3 = (Returned (), s4)"
    and pl: "db_log s4 = db_log ?s3 @ P" and pb: "boundary ''CALL populate_fact_housework_tasks();'' P"
    and pf: "flashes s4 = flashes ?s3 @ [fl4]"
    using populate_boundary [of e ?s3] by blast
  obtain s5 B fl5 where b: "backfill_agg_daily_housework_tasks e s4 = (Returned (), s5)"
    and bl: "db_log s5 = db_log s4 @ B" and bb: "boundary ''CALL backfill_agg_daily_housework_tasks();'' B"
    and bf: "flashes s5 = flashes s4 @ [fl5]"
    using backfill_boundary [of e s4] by blast
  have run: "upload_csv e f s = (Returned (Redirect ''add_task_record''), s5)"
    using assms t c p b by (simp add: upload_csv_def bind_def flash_def return_def)
  have lg: "db_log s5 = db_log s @ T @ I @ P @ B"
    using tl cl pl bl by simp
  have fl: "flashes s5 = flashes s2 @ [(''CSV file processed successfully!'', Success)] @ [fl4, fl5]"
    using pf bf by simp
  from t c run lg tb ci pb bb fl show ?thesis by blast
qed

lemma submit_pipeline:
  assumes "insert_ok e req s"
  shows "\<exists>s' T I P B.
     submit_record e req s = (Returned (Redirect ''add_task_record''), s') \<and>
     db_log s' = db_log s @ T @ I @ P @ B \<and>
     boundary ''CALL truncate_stg_fact_housework_tasks();'' T \<and> procedure_calls I = [] \<and>
     boundary ''CALL populate_fact_housework_tasks();'' P \<and>
     boundary ''CALL backfill_agg_daily_housework_tasks();'' B"
proof -
  obtain s1 T where t: "truncate_postgres_tbl e ''stg_fact_housework_tasks'' s = (Returned (), s1)"
    and tl: "db_log s1 = db_log s @ T" and tb: "boundary ''CALL truncate_stg_fact_housework_tasks();'' T"
    using truncate_boundary [of e s] by blast
  let ?I = "[(Add (manual_record req), None), (Commit, None)]"
  let ?s3 = "s1\<lparr>db_log := db_log s1 @ ?I,
                flashes := flashes s1 @ [(''Task record added successfully!'', Success)]\<rparr>"
  from assms t have a: "db_error e (db_log s1) (Add (manual_record req)) = None"
    and cm: "db_error e (db_log s1 @ [(Add (manual_record req), None)]) Commit = None"
    by (simp_all add: insert_ok_def)
  obtain s4 P where p: "populate_fact_housework_tasks e ?s3 = (Returned (), s4)"
    and pl: "db_log s4 = db_log ?s3 @ P" and pb: "boundary ''CALL populate_fact_housework_tasks();'' P"
    using populate_boundary [of e ?s3] by blast
  obtain s5 B where b: "backfill_agg_daily_housework_tasks e s4 = (Returned (), s5)"
    and bl: "db_log s5 = db_log s4 @ B" and bb: "boundary ''CALL backfill_agg_daily_housework_tasks();'' B"
    using backfill_boundary [of e s4] by blast
  have run: "submit_record e req s = (Returned (Redirect ''add_task_record''), s5)"
    using t a cm p b
    by (simp add: submit_record_def manual_record_def bind_def flash_def return_def db_call_def)
  have lg: "db_log s5 = db_log s @ T @ ?I @ P @ B"
    using tl pl bl by simp
  have "procedure_calls ?I = []" by (simp add: procedure_calls_def)
  with run lg tb pb bb show ?thesis by blast
qed

text \<open>
  Claim C5. Around each ingestion event the three stored procedures are to be called
  in order, each in a boundary of its own, a failure of one not keeping the later ones
  from being called. The manual insert of lines 201-202 stands outside any \<open>try\<close>,
  unlike the insert of \<open>process_csv\<close>: when its commit raises, the truncate has been
  committed, the exception leaves the view, and populate and backfill are never called.
\<close>

theorem failed_insert_stops_pipeline:
  "validate_on_submit (manual_request (Some ''submit_record'') (Some 30)) \<and>
   add_task_record insert_failing_env (manual_request (Some ''submit_record'') (Some 30))
     empty_state =
     (Raised (SQLAlchemyError ''connection lost''),
      \<lparr>flashes = [(''Successfully truncated stg_fact_housework_tasks!'', Success)],
       db_log = [(QueryPersons, None), (QueryTasks, None),
                 (Execute ''CALL truncate_stg_fact_housework_tasks();'', None), (Commit, None),
                 (Add \<lparr>date = PyOther ''2024-01-01'', person_id = PyInt 1, task_id = PyInt 1,
                        task_duration_minutes = PyInt 30\<rparr>, None),
                 (Commit, Some ''connection lost'')]\<rparr>)"
  by (simp add: run_defs example_defs insert_failing_env_def)

text \<open>
  What holds for a request that ingests without the manual insert raising (an upload
  with an allowed extension, or a valid manual record whose insert succeeds), whatever
  the stored procedures do: the calls on the session after the two reference reads are
  the truncate call in a boundary of its own, the ingestion with no procedure call in
  it, the populate call in its boundary, the backfill call in its boundary, so that the
  procedures called are these three in this order. A boundary is the call followed by
  its commit, or by a rollback when the call or the commit failed; so a failure of one
  procedure does not keep the later ones from being called.
\<close>

theorem stored_procedures_in_order:
  assumes "http_method req = POST" and "queries_ok e s"
    and "ingestion_event e req (after_queries s)"
  shows "\<exists>s' T I P B.
     add_task_record e req s = (Returned (Redirect ''add_task_record''), s') \<and>
     db_log s' = db_log (after_queries s) @ T @ I @ P @ B \<and>
     boundary ''CALL truncate_stg_fact_housework_tasks();'' T \<and> procedure_calls I = [] \<and>
     boundary ''CALL populate_fact_housework_tasks();'' P \<and>
     boundary ''CALL backfill_agg_daily_housework_tasks();'' B \<and>
     procedure_calls (T @ I @ P @ B) =
       [''CALL truncate_stg_fact_housework_tasks();'', ''CALL populate_fact_housework_tasks();'',
        ''CALL backfill_agg_daily_housework_tasks();'']"
proof -
  have "\<exists>s' T I P B.
     add_task_record e req s = (Returned (Redirect ''add_task_record''), s') \<and>
     db_log s' = db_log (after_queries s) @ T @ I @ P @ B \<and>
     boundary ''CALL truncate_stg_fact_housework_tasks();'' T \<and> procedure_calls I = [] \<and>
     boundary ''CALL populate_fact_housework_tasks();'' P \<and>
     boundary ''CALL backfill_agg_daily_housework_tasks();'' B"
  proof (cases "action req = Some ''submit_record'' \<and> validate_on_submit req")
    case True
    with assms(3) have "insert_ok e req (after_queries s)" by (simp add: ingestion_event_def)
    from submit_pipeline [OF this] show ?thesis
      using submit_branch [OF assms(1) _ _ assms(2)] True by simp
  next
    case False
    with assms(3) obtain f where a: "action req = Some ''upload_csv''"
      and f: "form_file (form req) = Some f" and al: "allowed_file (filename f)"
      by (auto simp: ingestion_event_def split: option.splits)
    have eq: "add_task_record e req s = upload_csv e f (after_queries s)"
      by (rule upload_branch [OF assms(1) a f allowed_file_nonempty [OF al] assms(2)])
    from upload_pipeline [OF al, of e "after_queries s"] show ?thesis
      unfolding eq by blast
  qed
  then obtain s' T I P B where
    run: "add_task_record e req s = (Returned (Redirect ''add_task_record''), s')"
    and lg: "db_log s' = db_log (after_queries s) @ T @ I @ P @ B"
    and tb: "boundary ''CALL truncate_stg_fact_housework_tasks();'' T"
    and ni: "procedure_calls I = []"
    and pb: "boundary ''CALL populate_fact_housework_tasks();'' P"
    and bb: "boundary ''CALL backfill_agg_daily_housework_tasks();'' B"
    by blast
  have "procedure_calls (T @ I @ P @ B) =
       [''CALL truncate_stg_fact_housework_tasks();'', ''CALL populate_fact_housework_tasks();'',
        ''CALL backfill_agg_daily_housework_tasks();'']"
    by (simp add: boundary_calls [OF tb] ni boundary_calls [OF pb] boundary_calls [OF bb])
  with run lg tb ni pb bb show ?thesis by blast
qed

theorem stored_procedures_in_order_witness:
  "\<exists>s' T I P B.
     add_task_record (failing_env (Execute ''CALL populate_fact_housework_tasks();''))
       (upload_request (csv_of [alice_row, bob_row])) empty_state =
       (Returned (Redirect ''add_task_record''), s') \<and>
     db_log s' = db_log (after_queries empty_state) @ T @ I @ P @ B \<and>
     boundary ''CALL truncate_stg_fact_housework_tasks();'' T \<and> procedure_calls I = [] \<and>
     boundary ''CALL populate_fact_housework_tasks();'' P \<and>
     boundary ''CALL backfill_agg_daily_housework_tasks();'' B \<and>
     procedure_calls (T @ I @ P @ B) =
       [''CALL truncate_stg_fact_housework_tasks();'', ''CALL populate_fact_housework_tasks();'',
        ''CALL backfill_agg_daily_housework_tasks();'']"
proof -
  let ?e = "failing_env (Execute ''CALL populate_fact_housework_tasks();'')"
  let ?r = "upload_request (csv_of [alice_row, bob_row])"
  have h1: "http_method ?r = POST" by (simp add: upload_request_def)
  have h2: "queries_ok ?e empty_state"
    by (simp add: queries_ok_def failing_env_def example_env_def)
  have h3: "ingestion_event ?e ?r (after_queries empty_state)"
    by (simp add: ingestion_event_def upload_request_def csv_of_def allowed_file_def
        rsplit_dot_def lower_def lower_char_def)
  show ?thesis by (rule stored_procedures_in_order [OF h1 h2 h3])
qed

text \<open>The run of that witness: populate fails, is rolled back, and backfill is still called.\<close>

lemma populate_failure_run:
  "add_task_record (failing_env (Execute ''CALL populate_fact_housework_tasks();''))
       (upload_request (csv_of [alice_row, bob_row])) empty_state =
     (Returned (Redirect ''add_task_record''),
      \<lparr>flashes = [(''Successfully truncated stg_fact_housework_tasks!'', Success),
                  (not_found_msg ''Person'' (PyStr ''Bob''), Danger),
                  (''Successfully inserted 1 task records.'', Success),
                  (''CSV file processed successfully!'', Success),
                  (''Error while populate fact_housework_tasks: connection lost'', Danger),
                  (''Successfully backfilling agg_daily_housework_tasks!'', Success)],
       db_log = [(QueryPersons, None), (QueryTasks, None),
                 (Execute ''CALL truncate_stg_fact_housework_tasks();'', None), (Commit, None),
                 (QueryPersons, None), (QueryTasks, None),
                 (BulkSaveObjects [alice_record], None), (Commit, None),
                 (Execute ''CALL populate_fact_housework_tasks();'', Some ''connection lost''),
                 (Rollback, None),
                 (Execute ''CALL backfill_agg_daily_housework_tasks();'', None), (Commit, None)]\<rparr>)"
  by (simp add: run_defs example_defs not_found_msg_def str_nat.simps)

text \<open>
  Claim C1. An upload whose file name has no allowed extension is to be rejected with a
  message and without any database operation, the staging truncate in particular. The
  view does flash the rejection, but only after it has called and committed the
  truncate procedure: line 214 stands before the extension check of line 218, whereas
  the \<open>submit_record\<close> branch validates before it truncates.
\<close>

theorem non_csv_upload_truncates:
  "\<not> allowed_file (filename notes_txt) \<and>
   add_task_record example_env (upload_request notes_txt) empty_state =
     (Returned (Redirect ''add_task_record''),
      \<lparr>flashes = [(''Successfully truncated stg_fact_housework_tasks!'', Success),
                  (''Please upload a valid CSV file.'', Danger)],
       db_log = [(QueryPersons, None), (QueryTasks, None),
                 (Execute ''CALL truncate_stg_fact_housework_tasks();'', None), (Commit, None)]\<rparr>)"
  by (simp add: run_defs example_defs notes_txt_def)

text \<open>
  What the view does for every such upload, once the two reference reads have
  succeeded: after the reads its only calls on the session are the boundary of the
  truncate procedure, it flashes the outcome of the truncate and then
  \<open>Please upload a valid CSV file.\<close>, and it redirects. Nothing is ingested and
  neither populate nor backfill is called.
\<close>

theorem rejected_upload_only_truncates:
  assumes "http_method req = POST" and "action req = Some ''upload_csv''"
    and "form_file (form req) = Some f" and "filename f \<noteq> []"
    and "\<not> allowed_file (filename f)" and "queries_ok e s"
  shows "\<exists>s' T fl.
     add_task_record e req s = (Returned (Redirect ''add_task_record''), s') \<and>
     db_log s' = db_log (after_queries s) @ T \<and>
     boundary ''CALL truncate_stg_fact_housework_tasks();'' T \<and>
     flashes s' = flashes s @ [fl, (''Please upload a valid CSV file.'', Danger)]"
proof -
  let ?s0 = "after_queries s"
  obtain s1 T fl where t: "truncate_postgres_tbl e ''stg_fact_housework_tasks'' ?s0 = (Returned (), s1)"
    and tl: "db_log s1 = db_log ?s0 @ T" and tb: "boundary ''CALL truncate_stg_fact_housework_tasks();'' T"
    and tf: "flashes s1 = flashes ?s0 @ [fl]"
    using truncate_boundary [of e ?s0] by blast
  let ?s' = "s1\<lparr>flashes := flashes s1 @ [(''Please upload a valid CSV file.'', Danger)]\<rparr>"
  have "add_task_record e req s = upload_csv e f ?s0"
    by (rule upload_branch [OF assms(1,2,3,4,6)])
  also have "\<dots> = (Returned (Redirect ''add_task_record''), ?s')"
    using assms(5) t by (simp add: upload_csv_def bind_def flash_def return_def)
  finally have run: "add_task_record e req s = (Returned (Redirect ''add_task_record''), ?s')" .
  have lg: "db_log ?s' = db_log ?s0 @ T"
    using tl by simp
  have fl: "flashes ?s' = flashes s @ [fl, (''Please upload a valid CSV file.'', Danger)]"
    using tf by (simp add: after_queries_def)
  from run lg tb fl show ?thesis by blast
qed

theorem rejected_upload_only_truncates_witness:
  "\<exists>s' T fl.
     add_task_record example_env (upload_request notes_txt) empty_state =
       (Returned (Redirect ''add_task_record''), s') \<and>
     db_log s' = db_log (after_queries empty_state) @ T \<and>
     boundary ''CALL truncate_stg_fact_housework_tasks();'' T \<and>
     flashes s' = flashes empty_state @ [fl, (''Please upload a valid CSV file.'', Danger)]"
proof -
  let ?r = "upload_request notes_txt"
  have h1: "http_method ?r = POST" and h2: "action ?r = Some ''upload_csv''"
    and h3: "form_file (form ?r) = Some notes_txt"
    by (simp_all add: upload_request_def)
  have h4: "filename notes_txt \<noteq> []" by (simp add: notes_txt_def)
  have h5: "\<not> allowed_file (filename notes_txt)"
    by (simp add: notes_txt_def allowed_file_def rsplit_dot_def lower_def lower_char_def)
  have h6: "queries_ok example_env empty_state"
    by (simp add: queries_ok_def example_env_def)
  show ?thesis by (rule rejected_upload_only_truncates [OF h1 h2 h3 h4 h5 h6])
qed

text \<open>
  Claim C10. For an upload that passes the extension check, the view flashes
  \<open>CSV file processed successfully!\<close> right after the messages of \<open>process_csv\<close>,
  whatever those are.
\<close>

theorem processed_message_unconditional:
  assumes "http_method req = POST" and "action req = Some ''upload_csv''"
    and "form_file (form req) = Some f" and "allowed_file (filename f)" and "queries_ok e s"
  shows "\<exists>s1 s2 s' fl.
     truncate_postgres_tbl e ''stg_fact_housework_tasks'' (after_queries s) = (Returned (), s1) \<and>
     process_csv e f s1 = (Returned (), s2) \<and>
     add_task_record e req s = (Returned (Redirect ''add_task_record''), s') \<and>
     flashes s' = flashes s2 @ [(''CSV file processed successfully!'', Success)] @ fl"
proof -
  have eq: "add_task_record e req s = upload_csv e f (after_queries s)"
    by (rule upload_branch [OF assms(1,2,3) allowed_file_nonempty [OF assms(4)] assms(5)])
  from upload_pipeline [OF assms(4), of e "after_queries s"] show ?thesis
    unfolding eq by blast
qed

theorem processed_message_unconditional_witness:
  "\<exists>s1 s2 s' fl.
     truncate_postgres_tbl example_env ''stg_fact_housework_tasks'' (after_queries empty_state) =
       (Returned (), s1) \<and>
     process_csv example_env unparsable_csv s1 = (Returned (), s2) \<and>
     add_task_record example_env (upload_request unparsable_csv) empty_state =
       (Returned (Redirect ''add_task_record''), s') \<and>
     flashes s' = flashes s2 @ [(''CSV file processed successfully!'', Success)] @ fl"
proof -
  let ?r = "upload_request unparsable_csv"
  have h1: "http_method ?r = POST" and h2: "action ?r = Some ''upload_csv''"
    and h3: "form_file (form ?r) = Some unparsable_csv"
    by (simp_all add: upload_request_def)
  have h4: "allowed_file (filename unparsable_csv)"
    by (simp add: unparsable_csv_def allowed_file_def rsplit_dot_def lower_def lower_char_def)
  have h5: "queries_ok example_env empty_state"
    by (simp add: queries_ok_def example_env_def)
  show ?thesis by (rule processed_message_unconditional [OF h1 h2 h3 h4 h5])
qed

text \<open>The run of that witness: the file does not parse, and the success message follows the error.\<close>

lemma processed_message_after_failure:
  "add_task_record example_env (upload_request unparsable_csv) empty_state =
     (Returned (Redirect ''add_task_record''),
      \<lparr>flashes = [(''Successfully truncated stg_fact_housework_tasks!'', Success),
                  (''Unexpected error: No columns to parse from file'', Danger),
                  (''CSV file processed successfully!'', Success),
                  (''Successfully populated fact_housework_tasks!'', Success),
                  (''Successfully backfilling agg_daily_housework_tasks!'', Success)],
       db_log = [(QueryPersons, None), (QueryTasks, None),
                 (Execute ''CALL truncate_stg_fact_housework_tasks();'', None), (Commit, None),
                 (QueryPersons, None), (QueryTasks, None),
                 (Execute ''CALL populate_fact_housework_tasks();'', None), (Commit, None),
                 (Execute ''CALL backfill_agg_daily_housework_tasks();'', None), (Commit, None)]\<rparr>)"
  by (simp add: run_defs example_defs)

text \<open>
  Claim C7. A manual submission with minutes \<open>\<le> 0\<close> is to be rejected with the minutes
  message and no insert. The view does not do so for a negative number: the only
  validator of the field is \<open>DataRequired\<close>, which accepts every integer but \<open>0\<close>, so
  with the other fields valid the record is inserted with its negative duration.
\<close>

theorem negative_minutes_accepted:
  "add_task_record example_env (manual_request (Some ''submit_record'') (Some (- 5))) empty_state =
     (Returned (Redirect ''add_task_record''),
      \<lparr>flashes = [(''Successfully truncated stg_fact_housework_tasks!'', Success),
                  (''Task record added successfully!'', Success),
                  (''Successfully populated fact_housework_tasks!'', Success),
                  (''Successfully backfilling agg_daily_housework_tasks!'', Success)],
       db_log = [(QueryPersons, None), (QueryTasks, None),
                 (Execute ''CALL truncate_stg_fact_housework_tasks();'', None), (Commit, None),
                 (Add \<lparr>date = PyOther ''2024-01-01'', person_id = PyInt 1, task_id = PyInt 1,
                        task_duration_minutes = PyInt (- 5)\<rparr>, None), (Commit, None),
                 (Execute ''CALL populate_fact_housework_tasks();'', None), (Commit, None),
                 (Execute ''CALL backfill_agg_daily_housework_tasks();'', None), (Commit, None)]\<rparr>)"
  by (simp add: run_defs example_defs)

text \<open>
  What the claim says does hold when the form is not valid, which for minutes \<open>0\<close> is
  always: both messages are flashed and the only calls on the session are the two
  reference reads.
\<close>

theorem nonpositive_minutes_rejected:
  assumes "http_method req = POST" and "queries_ok e s"
    and "action req = Some ''submit_record''"
    and "form_task_duration_minutes (form req) = Some n" and "n \<le> 0"
    and "n = 0 \<or> \<not> rest_valid req"
  shows "add_task_record e req s =
     (Returned (RenderTemplate ''task_record_form.html''
        (map (\<lambda>p. (Person_id p, Person_name p)) (persons_tbl e))
        (map (\<lambda>t. (Task_id t, Task_name t)) (tasks_tbl e))),
      (after_queries s)\<lparr>flashes := flashes s @
         [(''Invalid action or form submission.'', Danger),
          (''Minutes field should be greater than 0.'', Danger)]\<rparr>)"
proof -
  have nv: "\<not> validate_on_submit req"
    using assms(4,6) by (auto simp: validate_on_submit_def data_required_def)
  have "add_task_record e req s =
     bind (invalid_submission req) (\<lambda>_. return (RenderTemplate ''task_record_form.html''
        (map (\<lambda>p. (Person_id p, Person_name p)) (persons_tbl e))
        (map (\<lambda>t. (Task_id t, Task_name t)) (tasks_tbl e)))) (after_queries s)"
    using nv assms(3) by (intro invalid_branch [OF assms(1,2)]) simp_all
  then show ?thesis
    using assms(3,4,5) by (simp add: invalid_submission_def le_zero_def after_queries_def monad_defs)
qed

theorem nonpositive_minutes_rejected_witness:
  "add_task_record example_env (manual_request (Some ''submit_record'') (Some 0)) empty_state =
     (Returned (RenderTemplate ''task_record_form.html'' [(1, ''Alice'')] [(1, ''Dishes'')]),
      \<lparr>flashes = [(''Invalid action or form submission.'', Danger),
                  (''Minutes field should be greater than 0.'', Danger)],
       db_log = [(QueryPersons, None), (QueryTasks, None)]\<rparr>)"
proof -
  let ?r = "manual_request (Some ''submit_record'') (Some 0)"
  have h1: "http_method ?r = POST" and h3: "action ?r = Some ''submit_record''"
    and h4: "form_task_duration_minutes (form ?r) = Some 0"
    by (simp_all add: manual_request_def)
  have h2: "queries_ok example_env empty_state"
    by (simp add: queries_ok_def example_env_def)
  have h5: "(0::int) \<le> 0" by simp
  have h6: "(0::int) = 0 \<or> \<not> rest_valid ?r" by simp
  from nonpositive_minutes_rejected [OF h1 h2 h3 h4 h5 h6] show ?thesis
    by (simp add: example_env_def empty_state_def after_queries_def)
qed

text \<open>
  Claim C8. A POST with any other action is to flash the generic message and render the
  form again. When the submitted minutes are not an integer the field's data is
  \<open>None\<close>, and the comparison of line 235 raises \<open>TypeError\<close> after the generic
  message: the view raises instead of rendering.
\<close>

theorem invalid_action_type_error:
  "add_task_record example_env (manual_request (Some ''refresh'') None) empty_state =
     (Raised (TypeError none_le_int),
      \<lparr>flashes = [(''Invalid action or form submission.'', Danger)],
       db_log = [(QueryPersons, None), (QueryTasks, None)]\<rparr>)"
  by (simp add: run_defs example_defs)

text \<open>
  With integer data in the minutes field the view does what the claim says: the generic
  message, the form rendered with the choices read from the reference tables, and no
  call on the session but the two reads.
\<close>

theorem invalid_action_rerenders:
  assumes "http_method req = POST" and "queries_ok e s"
    and "action req \<noteq> Some ''submit_record''" and "action req \<noteq> Some ''upload_csv''"
    and "form_task_duration_minutes (form req) = Some n"
  shows "add_task_record e req s =
     (Returned (RenderTemplate ''task_record_form.html''
        (map (\<lambda>p. (Person_id p, Person_name p)) (persons_tbl e))
        (map (\<lambda>t. (Task_id t, Task_name t)) (tasks_tbl e))),
      (after_queries s)\<lparr>flashes := flashes s @ [(''Invalid action or form submission.'', Danger)]\<rparr>)"
proof -
  have "add_task_record e req s =
     bind (invalid_submission req) (\<lambda>_. return (RenderTemplate ''task_record_form.html''
        (map (\<lambda>p. (Person_id p, Person_name p)) (persons_tbl e))
        (map (\<lambda>t. (Task_id t, Task_name t)) (tasks_tbl e)))) (after_queries s)"
    using assms(3,4) by (intro invalid_branch [OF assms(1,2)]) simp_all
  then show ?thesis
    using assms(3,5) by (simp add: invalid_submission_def le_zero_def after_queries_def monad_defs)
qed

theorem invalid_action_rerenders_witness:
  "add_task_record example_env (manual_request (Some ''refresh'') (Some 30)) empty_state =
     (Returned (RenderTemplate ''task_record_form.html'' [(1, ''Alice'')] [(1, ''Dishes'')]),
      \<lparr>flashes = [(''Invalid action or form submission.'', Danger)],
       db_log = [(QueryPersons, None), (QueryTasks, None)]\<rparr>)"
proof -
  let ?r = "manual_request (Some ''refresh'') (Some 30)"
  have h1: "http_method ?r = POST" and h3: "action ?r \<noteq> Some ''submit_record''"
    and h4: "action ?r \<noteq> Some ''upload_csv''"
    and h5: "form_task_duration_minutes (form ?r) = Some 30"
    by (simp_all add: manual_request_def)
  have h2: "queries_ok example_env empty_state"
    by (simp add: queries_ok_def example_env_def)
  from invalid_action_rerenders [OF h1 h2 h3 h4 h5] show ?thesis
    by (simp add: example_env_def empty_state_def after_queries_def)
qed

end
